theory Spec2Isabelle
  imports Main
begin

section \<open>Lock policies and the busy-wait primitive (ts\_stl\_base.hpp)\<close>

text \<open>
  The header \<^verbatim>\<open>ts_stl_base.hpp\<close> is embedded for one calling thread. Every
  synchronisation object lives at an address of an explicit store; a call that would wait
  for another thread (a spin loop on a held flag, \<^verbatim>\<open>std::mutex::lock\<close> on a held
  mutex) does not return in this model, because no other thread exists that could release.
  A member \<^verbatim>\<open>x_\<close> of the source is the field \<open>x\<close> here, since an Isabelle name
  cannot end with an underscore.
\<close>

datatype LockPolicy = Mutex | SpinLock | LockFree | ReadWrite

text \<open>\<^verbatim>\<open>std::atomic_flag\<close>: \<^verbatim>\<open>test_and_set\<close> returns the old value and leaves the
  flag set; \<^verbatim>\<open>clear\<close> resets it.\<close>

definition test_and_set :: "bool \<Rightarrow> bool \<times> bool" where
  "test_and_set b = (b, True)"

definition clear :: "bool \<Rightarrow> bool" where
  "clear b = False"

text \<open>\<^verbatim>\<open>class SpinLock\<close> has the single member \<^verbatim>\<open>flag_\<close>.\<close>

record SpinLock_obj =
  flag :: bool

text \<open>
  \<^verbatim>\<open>void lock() { while (flag_.test_and_set(acquire)) { pause } }\<close>
  The loop may run forever, so the function is partial: \<open>None\<close> is "never returns".
\<close>

partial_function (option) SpinLock_lock :: "SpinLock_obj \<Rightarrow> SpinLock_obj option" where
  "SpinLock_lock s =
     (case test_and_set (flag s) of
        (old, new) \<Rightarrow>
          if old then SpinLock_lock (s\<lparr>flag := new\<rparr>)
          else Some (s\<lparr>flag := new\<rparr>))"

text \<open>\<^verbatim>\<open>void unlock() { flag_.clear(release); }\<close>\<close>

definition SpinLock_unlock :: "SpinLock_obj \<Rightarrow> SpinLock_obj" where
  "SpinLock_unlock s = s\<lparr>flag := clear (flag s)\<rparr>"

text \<open>\<^verbatim>\<open>bool try_lock() { return !flag_.test_and_set(acquire); }\<close>\<close>

definition SpinLock_try_lock :: "SpinLock_obj \<Rightarrow> bool \<times> SpinLock_obj" where
  "SpinLock_try_lock s =
     (case test_and_set (flag s) of (old, new) \<Rightarrow> (\<not> old, s\<lparr>flag := new\<rparr>))"

section \<open>The store of synchronisation objects\<close>

type_synonym addr = nat

text \<open>A \<^verbatim>\<open>std::shared_mutex\<close> is held by one writer or by a number of readers.\<close>

record shared_mutex_obj =
  writer :: bool
  readers :: nat

text \<open>Every call that acquires or releases a primitive is logged, so that releases can be
  counted.\<close>

datatype event =
    Locked_mutex addr | Unlocked_mutex addr
  | Locked_spin addr | Unlocked_spin addr
  | Locked_rw addr | Unlocked_rw addr
  | Locked_shared addr | Unlocked_shared addr

record world =
  brk :: addr
  mutexes :: "addr \<rightharpoonup> bool"
  spinlocks :: "addr \<rightharpoonup> SpinLock_obj"
  shared_mutexes :: "addr \<rightharpoonup> shared_mutex_obj"
  trace :: "event list"

datatype exn = logic_error string

text \<open>
  What a call does: it returns, it throws, it waits for ever (\<open>Blocked\<close>), or it
  dereferences a null pointer (\<open>Undefined\<close>).
\<close>

datatype 'a outcome = Returned 'a | Thrown exn | Blocked | Undefined

fun then_do :: "'a outcome \<Rightarrow> ('a \<Rightarrow> 'b outcome) \<Rightarrow> 'b outcome" where
  "then_do (Returned x) k = k x"
| "then_do (Thrown e) k = Thrown e"
| "then_do Blocked k = Blocked"
| "then_do Undefined k = Undefined"

subsection \<open>The standard library's primitives\<close>

text \<open>
  \<^verbatim>\<open>std::mutex\<close>, \<^verbatim>\<open>std::shared_mutex\<close>, \<^verbatim>\<open>std::unique_lock\<close>,
  \<^verbatim>\<open>std::shared_lock\<close> and \<^verbatim>\<open>std::make_unique\<close> belong to the C++ standard library,
  not to the repository; they are modelled by the effects the standard gives them.
  Allocation is taken to succeed.
\<close>

definition std_mutex_lock :: "addr \<Rightarrow> world \<Rightarrow> world outcome" where
  "std_mutex_lock a w =
     (case mutexes w a of
        None \<Rightarrow> Undefined
      | Some held \<Rightarrow>
          if held then Blocked
          else Returned (w\<lparr>mutexes := (mutexes w)(a \<mapsto> True),
                           trace := trace w @ [Locked_mutex a]\<rparr>))"

definition std_mutex_unlock :: "addr \<Rightarrow> world \<Rightarrow> world" where
  "std_mutex_unlock a w =
     w\<lparr>mutexes := (mutexes w)(a := map_option (\<lambda>_. False) (mutexes w a)),
       trace := trace w @ [Unlocked_mutex a]\<rparr>"

definition shared_mutex_lock :: "addr \<Rightarrow> world \<Rightarrow> world outcome" where
  "shared_mutex_lock a w =
     (case shared_mutexes w a of
        None \<Rightarrow> Undefined
      | Some m \<Rightarrow>
          if writer m \<or> 0 < readers m then Blocked
          else Returned (w\<lparr>shared_mutexes := (shared_mutexes w)(a \<mapsto> m\<lparr>writer := True\<rparr>),
                           trace := trace w @ [Locked_rw a]\<rparr>))"

definition shared_mutex_unlock :: "addr \<Rightarrow> world \<Rightarrow> world" where
  "shared_mutex_unlock a w =
     w\<lparr>shared_mutexes :=
         (shared_mutexes w)(a := map_option (\<lambda>m. m\<lparr>writer := False\<rparr>) (shared_mutexes w a)),
       trace := trace w @ [Unlocked_rw a]\<rparr>"

definition shared_mutex_lock_shared :: "addr \<Rightarrow> world \<Rightarrow> world outcome" where
  "shared_mutex_lock_shared a w =
     (case shared_mutexes w a of
        None \<Rightarrow> Undefined
      | Some m \<Rightarrow>
          if writer m then Blocked
          else Returned (w\<lparr>shared_mutexes :=
                             (shared_mutexes w)(a \<mapsto> m\<lparr>readers := Suc (readers m)\<rparr>),
                           trace := trace w @ [Locked_shared a]\<rparr>))"

definition shared_mutex_unlock_shared :: "addr \<Rightarrow> world \<Rightarrow> world" where
  "shared_mutex_unlock_shared a w =
     w\<lparr>shared_mutexes :=
         (shared_mutexes w)(a := map_option (\<lambda>m. m\<lparr>readers := readers m - 1\<rparr>)
                                   (shared_mutexes w a)),
       trace := trace w @ [Unlocked_shared a]\<rparr>"

text \<open>\<^verbatim>\<open>spinlock_->lock()\<close> and \<^verbatim>\<open>spinlock_->unlock()\<close> on a \<^verbatim>\<open>SpinLock\<close> of the store.\<close>

definition spin_lock_at :: "addr \<Rightarrow> world \<Rightarrow> world outcome" where
  "spin_lock_at a w =
     (case spinlocks w a of
        None \<Rightarrow> Undefined
      | Some s \<Rightarrow>
          (case SpinLock_lock s of
             None \<Rightarrow> Blocked
           | Some s' \<Rightarrow> Returned (w\<lparr>spinlocks := (spinlocks w)(a \<mapsto> s'),
                                    trace := trace w @ [Locked_spin a]\<rparr>)))"

definition spin_unlock_at :: "addr \<Rightarrow> world \<Rightarrow> world" where
  "spin_unlock_at a w =
     w\<lparr>spinlocks := (spinlocks w)(a := map_option SpinLock_unlock (spinlocks w a)),
       trace := trace w @ [Unlocked_spin a]\<rparr>"

text \<open>
  \<^verbatim>\<open>std::unique_lock<M>\<close> and \<^verbatim>\<open>std::shared_lock<M>\<close>: the pointer \<open>pm\<close> to the
  primitive and the flag \<open>owns\<close>. Default construction gives \<open>no_lock\<close>. The constructor
  from a primitive locks it. The destructor unlocks when \<open>owns\<close> is set, and writes
  nothing. Move assignment first releases what the target owns, then takes the source's
  state and leaves the source empty. The parameter \<open>unlock\<close> is the release call of the
  primitive's type.
\<close>

record unique_lock =
  pm :: "addr option"
  owns :: bool

definition no_lock :: unique_lock where
  "no_lock = \<lparr>pm = None, owns = False\<rparr>"

definition lock_ctor :: "(addr \<Rightarrow> world \<Rightarrow> world outcome) \<Rightarrow> addr \<Rightarrow> world
    \<Rightarrow> (unique_lock \<times> world) outcome" where
  "lock_ctor acquire a w =
     then_do (acquire a w) (\<lambda>w'. Returned (\<lparr>pm = Some a, owns = True\<rparr>, w'))"

definition lock_dtor :: "(addr \<Rightarrow> world \<Rightarrow> world) \<Rightarrow> unique_lock \<Rightarrow> world \<Rightarrow> world" where
  "lock_dtor unlock l w =
     (if owns l then (case pm l of None \<Rightarrow> w | Some a \<Rightarrow> unlock a w) else w)"

definition lock_move_assign :: "(addr \<Rightarrow> world \<Rightarrow> world) \<Rightarrow> unique_lock \<Rightarrow> unique_lock
    \<Rightarrow> world \<Rightarrow> unique_lock \<times> unique_lock \<times> world" where
  "lock_move_assign unlock this other w = (other, no_lock, lock_dtor unlock this w)"

section \<open>UnifiedLockGuard\<close>

text \<open>
  \<^verbatim>\<open>SpinLock* spinlock_; int lock_type_; std::unique_lock<std::mutex> mutex_lock_;
  std::unique_lock<std::shared_mutex> rw_lock_;\<close>
  The tag \<open>lock_type\<close> is 0 for a mutex guard, 1 for the spin primitive, 2 for a writer lock
  of the shared mutex, 3 for the empty guard and -1 after a move.
\<close>

record UnifiedLockGuard =
  spinlock :: "addr option"
  lock_type :: int
  mutex_lock :: unique_lock
  rw_lock :: unique_lock

text \<open>The four converting constructors. The one for the spin primitive calls \<^verbatim>\<open>lock()\<close>
  in its body, after the members are initialised. \<^verbatim>\<open>NullLockGuard\<close> has no state: the
  constructor from it takes no argument here. \<^verbatim>\<open>SpinLockGuard\<close> is used by none of the
  functions below and is left out.\<close>

definition UnifiedLockGuard_of_mutex :: "unique_lock \<Rightarrow> UnifiedLockGuard" where
  "UnifiedLockGuard_of_mutex l =
     \<lparr>spinlock = None, lock_type = 0, mutex_lock = l, rw_lock = no_lock\<rparr>"

definition UnifiedLockGuard_of_spin :: "addr \<Rightarrow> world \<Rightarrow> (UnifiedLockGuard \<times> world) outcome" where
  "UnifiedLockGuard_of_spin a w =
     then_do (spin_lock_at a w)
       (\<lambda>w'. Returned (\<lparr>spinlock = Some a, lock_type = 1, mutex_lock = no_lock,
                          rw_lock = no_lock\<rparr>, w'))"

definition UnifiedLockGuard_of_null :: UnifiedLockGuard where
  "UnifiedLockGuard_of_null =
     \<lparr>spinlock = None, lock_type = 3, mutex_lock = no_lock, rw_lock = no_lock\<rparr>"

definition UnifiedLockGuard_of_rw :: "unique_lock \<Rightarrow> UnifiedLockGuard" where
  "UnifiedLockGuard_of_rw l =
     \<lparr>spinlock = None, lock_type = 2, mutex_lock = no_lock, rw_lock = l\<rparr>"

text \<open>
  \<^verbatim>\<open>~UnifiedLockGuard() { if (lock_type_ == 1 && spinlock_) spinlock_->unlock(); }\<close>
  After the body the members are destroyed in reverse order of declaration:
  \<^verbatim>\<open>rw_lock_\<close>, then \<^verbatim>\<open>mutex_lock_\<close>. Nothing writes to a field.
\<close>

definition UnifiedLockGuard_dtor_body :: "UnifiedLockGuard \<Rightarrow> world \<Rightarrow> world" where
  "UnifiedLockGuard_dtor_body g w =
     (if lock_type g = 1
      then (case spinlock g of None \<Rightarrow> w | Some a \<Rightarrow> spin_unlock_at a w)
      else w)"

definition UnifiedLockGuard_dtor :: "UnifiedLockGuard \<Rightarrow> world \<Rightarrow> world" where
  "UnifiedLockGuard_dtor g w =
     lock_dtor std_mutex_unlock (mutex_lock g)
       (lock_dtor shared_mutex_unlock (rw_lock g) (UnifiedLockGuard_dtor_body g w))"

text \<open>
  The member transfer that the move constructor and the move assignment share:
  \<^verbatim>\<open>if (other.lock_type_ == 0) mutex_lock_ = std::move(other.mutex_lock_);
  else if (other.lock_type_ == 2) rw_lock_ = std::move(other.rw_lock_);
  other.spinlock_ = nullptr; other.lock_type_ = -1;\<close>
\<close>

definition move_payload :: "UnifiedLockGuard \<Rightarrow> UnifiedLockGuard \<Rightarrow> world
    \<Rightarrow> UnifiedLockGuard \<times> UnifiedLockGuard \<times> world" where
  "move_payload this other w =
     (case (if lock_type other = 0
            then (case lock_move_assign std_mutex_unlock (mutex_lock this) (mutex_lock other) w of
                    (l, l', w') \<Rightarrow> (this\<lparr>mutex_lock := l\<rparr>, other\<lparr>mutex_lock := l'\<rparr>, w'))
            else if lock_type other = 2
            then (case lock_move_assign shared_mutex_unlock (rw_lock this) (rw_lock other) w of
                    (l, l', w') \<Rightarrow> (this\<lparr>rw_lock := l\<rparr>, other\<lparr>rw_lock := l'\<rparr>, w'))
            else (this, other, w)) of
        (this', other', w') \<Rightarrow> (this', other'\<lparr>spinlock := None, lock_type := - 1\<rparr>, w'))"

text \<open>
  \<^verbatim>\<open>UnifiedLockGuard(UnifiedLockGuard&& other)\<close>: the new object copies pointer and tag,
  its lock members start default-constructed. The result is the new object, the source
  as the move leaves it, and the store.
\<close>

definition UnifiedLockGuard_move :: "UnifiedLockGuard \<Rightarrow> world
    \<Rightarrow> UnifiedLockGuard \<times> UnifiedLockGuard \<times> world" where
  "UnifiedLockGuard_move other w =
     move_payload
       \<lparr>spinlock = spinlock other, lock_type = lock_type other,
        mutex_lock = no_lock, rw_lock = no_lock\<rparr> other w"

text \<open>
  \<^verbatim>\<open>operator=(UnifiedLockGuard&& other)\<close>, on guard objects at the addresses \<open>this\<close> and
  \<open>other\<close> of a frame \<open>gs\<close>. The statement \<^verbatim>\<open>this->~UnifiedLockGuard()\<close> runs the whole
  destructor, members included, on the target. No statement of the source and no
  specified effect of \<^verbatim>\<open>~unique_lock\<close> writes to the target's fields, so they keep their
  values, and the assignments that follow overwrite some of them. (C++ leaves the use of
  the destroyed members undefined; the model goes by the effects that are specified.)
\<close>

definition UnifiedLockGuard_assign :: "addr \<Rightarrow> addr \<Rightarrow> (addr \<Rightarrow> UnifiedLockGuard) \<Rightarrow> world
    \<Rightarrow> (addr \<Rightarrow> UnifiedLockGuard) \<times> world" where
  "UnifiedLockGuard_assign this other gs w =
     (if this \<noteq> other
      then (case move_payload
                   ((gs this)\<lparr>spinlock := spinlock (gs other), lock_type := lock_type (gs other)\<rparr>)
                   (gs other)
                   (UnifiedLockGuard_dtor (gs this) w) of
              (t, oth, w') \<Rightarrow> (gs(this := t, other := oth), w'))
      else (gs, w))"

text \<open>A chain of \<open>n\<close> move constructions: the last holder, the moved-from objects left
  behind, and the store.\<close>

fun move_chain :: "nat \<Rightarrow> UnifiedLockGuard \<Rightarrow> world
    \<Rightarrow> UnifiedLockGuard \<times> UnifiedLockGuard list \<times> world" where
  "move_chain 0 g w = (g, [], w)"
| "move_chain (Suc n) g w =
     (case UnifiedLockGuard_move g w of
        (g', src, w') \<Rightarrow>
          (case move_chain n g' w' of (h, srcs, w'') \<Rightarrow> (h, src # srcs, w'')))"

text \<open>Leaving the scope destroys the objects one after the other.\<close>

fun destroy_all :: "UnifiedLockGuard list \<Rightarrow> world \<Rightarrow> world" where
  "destroy_all [] w = w"
| "destroy_all (g # gs) w = destroy_all gs (UnifiedLockGuard_dtor g w)"

section \<open>LockGuard, the lock holder\<close>

text \<open>
  \<^verbatim>\<open>LockPolicy policy_; std::unique_ptr<std::mutex> mutex_;
  std::unique_ptr<SpinLock> spinlock_; std::unique_ptr<std::shared_mutex> shared_mutex_;\<close>
  The fields carry the prefix \<open>h_\<close>: \<open>spinlock\<close> is a field of the guard already.
\<close>

record LockGuard =
  h_policy :: LockPolicy
  h_mutex :: "addr option"
  h_spinlock :: "addr option"
  h_shared_mutex :: "addr option"

text \<open>\<^verbatim>\<open>std::make_unique<T>()\<close> for the three primitives: a fresh address, a free lock.\<close>

definition make_mutex :: "world \<Rightarrow> addr \<times> world" where
  "make_mutex w = (brk w, w\<lparr>brk := Suc (brk w), mutexes := (mutexes w)(brk w \<mapsto> False)\<rparr>)"

definition make_SpinLock :: "world \<Rightarrow> addr \<times> world" where
  "make_SpinLock w =
     (brk w, w\<lparr>brk := Suc (brk w), spinlocks := (spinlocks w)(brk w \<mapsto> \<lparr>flag = False\<rparr>)\<rparr>)"

definition make_shared_mutex :: "world \<Rightarrow> addr \<times> world" where
  "make_shared_mutex w =
     (brk w, w\<lparr>brk := Suc (brk w),
               shared_mutexes := (shared_mutexes w)(brk w \<mapsto> \<lparr>writer = False, readers = 0\<rparr>)\<rparr>)"

definition LockGuard_ctor :: "LockPolicy \<Rightarrow> world \<Rightarrow> LockGuard \<times> world" where
  "LockGuard_ctor p w =
     (let lg = \<lparr>h_policy = p, h_mutex = None, h_spinlock = None, h_shared_mutex = None\<rparr>
      in if p = Mutex
         then (case make_mutex w of (a, w') \<Rightarrow> (lg\<lparr>h_mutex := Some a\<rparr>, w'))
         else if p = SpinLock
         then (case make_SpinLock w of (a, w') \<Rightarrow> (lg\<lparr>h_spinlock := Some a\<rparr>, w'))
         else if p = ReadWrite
         then (case make_shared_mutex w of (a, w') \<Rightarrow> (lg\<lparr>h_shared_mutex := Some a\<rparr>, w'))
         else (lg, w))"

definition write_lock :: "LockGuard \<Rightarrow> world \<Rightarrow> (UnifiedLockGuard \<times> world) outcome" where
  "write_lock lg w =
     (if h_policy lg = Mutex
      then (case h_mutex lg of
              None \<Rightarrow> Undefined
            | Some a \<Rightarrow>
                then_do (lock_ctor std_mutex_lock a w)
                  (\<lambda>(l, w'). Returned (UnifiedLockGuard_of_mutex l, w')))
      else if h_policy lg = SpinLock
      then (case h_spinlock lg of
              None \<Rightarrow> Undefined
            | Some a \<Rightarrow> UnifiedLockGuard_of_spin a w)
      else if h_policy lg = LockFree
      then Returned (UnifiedLockGuard_of_null, w)
      else Thrown (logic_error ''Cannot acquire write_lock on ReadWrite policy''))"

definition lock :: "LockGuard \<Rightarrow> world \<Rightarrow> (UnifiedLockGuard \<times> world) outcome" where
  "lock lg w = write_lock lg w"

definition read_lock :: "LockGuard \<Rightarrow> world \<Rightarrow> (unique_lock \<times> world) outcome" where
  "read_lock lg w =
     (if h_policy lg = ReadWrite
      then (case h_shared_mutex lg of
              None \<Rightarrow> Undefined
            | Some a \<Rightarrow> lock_ctor shared_mutex_lock_shared a w)
      else Thrown (logic_error ''Cannot acquire read_lock on Mutex policy''))"

definition unique_lock_rw :: "LockGuard \<Rightarrow> world \<Rightarrow> (unique_lock \<times> world) outcome" where
  "unique_lock_rw lg w =
     (if h_policy lg = ReadWrite
      then (case h_shared_mutex lg of
              None \<Rightarrow> Undefined
            | Some a \<Rightarrow> lock_ctor shared_mutex_lock a w)
      else Thrown (logic_error ''Cannot acquire unique_lock_rw on Mutex policy''))"

definition policy :: "LockGuard \<Rightarrow> LockPolicy" where
  "policy lg = h_policy lg"

text \<open>
  \<^verbatim>\<open>class LockGuard\<close> declares no destructor and no copy or move operation, so the
  compiler supplies the member-wise move constructor and move assignment (the copy
  operations are deleted, a \<^verbatim>\<open>std::unique_ptr\<close> cannot be copied). Move assignment from
  another holder copies \<^verbatim>\<open>policy_\<close> and move-assigns the three pointers in the order of
  declaration: each deletes the primitive the target owned, takes the source's pointer
  and leaves the source's null. The result is the target, the source and the store.
\<close>

definition unique_ptr_reset :: "(addr \<Rightarrow> world \<Rightarrow> world) \<Rightarrow> addr option \<Rightarrow> world \<Rightarrow> world" where
  "unique_ptr_reset delete p w = (case p of None \<Rightarrow> w | Some a \<Rightarrow> delete a w)"

definition delete_mutex :: "addr \<Rightarrow> world \<Rightarrow> world" where
  "delete_mutex a w = w\<lparr>mutexes := (mutexes w)(a := None)\<rparr>"

definition delete_SpinLock :: "addr \<Rightarrow> world \<Rightarrow> world" where
  "delete_SpinLock a w = w\<lparr>spinlocks := (spinlocks w)(a := None)\<rparr>"

definition delete_shared_mutex :: "addr \<Rightarrow> world \<Rightarrow> world" where
  "delete_shared_mutex a w = w\<lparr>shared_mutexes := (shared_mutexes w)(a := None)\<rparr>"

definition LockGuard_move_assign :: "LockGuard \<Rightarrow> LockGuard \<Rightarrow> world
    \<Rightarrow> LockGuard \<times> LockGuard \<times> world" where
  "LockGuard_move_assign this other w =
     (\<lparr>h_policy = h_policy other, h_mutex = h_mutex other, h_spinlock = h_spinlock other,
       h_shared_mutex = h_shared_mutex other\<rparr>,
      other\<lparr>h_mutex := None, h_spinlock := None, h_shared_mutex := None\<rparr>,
      unique_ptr_reset delete_shared_mutex (h_shared_mutex this)
        (unique_ptr_reset delete_SpinLock (h_spinlock this)
          (unique_ptr_reset delete_mutex (h_mutex this) w)))"

text \<open>
  All that can be done to a holder once it is built: a call of one of its five member
  functions, or an assignment from another holder. A step gives the holder and the store
  after it. The member functions are \<^verbatim>\<open>const\<close>: they leave the holder's own fields as
  they are and act on the store; when the call throws or waits the store is as before.
\<close>

datatype LockGuard_op =
    Op_write_lock | Op_lock | Op_read_lock | Op_unique_lock_rw | Op_policy
  | Op_assign LockGuard

fun is_assign :: "LockGuard_op \<Rightarrow> bool" where
  "is_assign (Op_assign src) = True"
| "is_assign c = False"

fun store_after :: "('g \<times> world) outcome \<Rightarrow> world \<Rightarrow> world" where
  "store_after (Returned (g, w')) w = w'"
| "store_after r w = w"

fun LockGuard_step :: "LockGuard_op \<Rightarrow> LockGuard \<times> world \<Rightarrow> LockGuard \<times> world" where
  "LockGuard_step Op_write_lock (lg, w) = (lg, store_after (write_lock lg w) w)"
| "LockGuard_step Op_lock (lg, w) = (lg, store_after (lock lg w) w)"
| "LockGuard_step Op_read_lock (lg, w) = (lg, store_after (read_lock lg w) w)"
| "LockGuard_step Op_unique_lock_rw (lg, w) = (lg, store_after (unique_lock_rw lg w) w)"
| "LockGuard_step Op_policy (lg, w) = (lg, w)"
| "LockGuard_step (Op_assign src) (lg, w) =
     (case LockGuard_move_assign lg src w of (lg', src', w') \<Rightarrow> (lg', w'))"

section \<open>container\_mixin\<close>

text \<open>
  \<^verbatim>\<open>template <typename Derived, typename T, LockPolicy Policy> class container_mixin\<close>.
  The template parameter \<^verbatim>\<open>Policy\<close> is the argument \<open>P\<close>; the branches of
  \<^verbatim>\<open>if constexpr\<close> are tested in the order of the source. The object is the member
  \<^verbatim>\<open>lock_guard_\<close> together with the derived class's \<^verbatim>\<open>data_\<close>, a sequence.
\<close>

record 'a container_mixin =
  lock_guard :: LockGuard
  data :: "'a list"

text \<open>\<^verbatim>\<open>container_mixin() : lock_guard_(Policy) {}\<close>, the derived class supplying \<open>xs\<close>.\<close>

definition container_mixin_ctor :: "LockPolicy \<Rightarrow> 'a list \<Rightarrow> world \<Rightarrow> 'a container_mixin \<times> world" where
  "container_mixin_ctor P xs w =
     (case LockGuard_ctor P w of (lg, w') \<Rightarrow> (\<lparr>lock_guard = lg, data = xs\<rparr>, w'))"

text \<open>
  The acquisition functions return \<^verbatim>\<open>auto\<close>: a \<^verbatim>\<open>UnifiedLockGuard\<close>, a
  \<^verbatim>\<open>std::unique_lock<std::shared_mutex>\<close> or a \<^verbatim>\<open>std::shared_lock<std::shared_mutex>\<close>,
  depending on the branch.
\<close>

datatype guard = Unified UnifiedLockGuard | Unique_rw unique_lock | Shared_rw unique_lock

definition returning :: "('g \<Rightarrow> guard) \<Rightarrow> ('g \<times> world) outcome \<Rightarrow> (guard \<times> world) outcome" where
  "returning kind r = then_do r (\<lambda>(g, w). Returned (kind g, w))"

definition acquire_write_lock :: "LockPolicy \<Rightarrow> 'a container_mixin \<Rightarrow> world
    \<Rightarrow> (guard \<times> world) outcome" where
  "acquire_write_lock P c w =
     (if P = Mutex then returning Unified (lock (lock_guard c) w)
      else if P = SpinLock then returning Unified (lock (lock_guard c) w)
      else if P = LockFree then returning Unified (lock (lock_guard c) w)
      else returning Unique_rw (unique_lock_rw (lock_guard c) w))"

definition acquire_read_lock :: "LockPolicy \<Rightarrow> 'a container_mixin \<Rightarrow> world
    \<Rightarrow> (guard \<times> world) outcome" where
  "acquire_read_lock P c w =
     (if P = LockFree then returning Unified (lock (lock_guard c) w)
      else if P = SpinLock then returning Unified (lock (lock_guard c) w)
      else if P = ReadWrite then returning Shared_rw (read_lock (lock_guard c) w)
      else returning Unified (lock (lock_guard c) w))"


text \<open>
  \<^verbatim>\<open>unsafe_size\<close>, \<^verbatim>\<open>unsafe_empty\<close>, \<^verbatim>\<open>unsafe_ref\<close> touch \<^verbatim>\<open>derived().data_\<close> only.
  The reference that \<^verbatim>\<open>unsafe_ref\<close> returns is the pair of reading \<open>data\<close> and of
  writing it in place.
\<close>

definition unsafe_size :: "'a container_mixin \<Rightarrow> world \<Rightarrow> (nat \<times> world) outcome" where
  "unsafe_size c w = Returned (length (data c), w)"

definition unsafe_empty :: "'a container_mixin \<Rightarrow> world \<Rightarrow> (bool \<times> world) outcome" where
  "unsafe_empty c w = Returned (data c = [], w)"

definition unsafe_ref :: "'a container_mixin \<Rightarrow> world
    \<Rightarrow> (('a list \<times> ('a list \<Rightarrow> 'a container_mixin)) \<times> world) outcome" where
  "unsafe_ref c w = Returned ((data c, \<lambda>xs. c\<lparr>data := xs\<rparr>), w)"






text \<open>What the log says about one primitive.\<close>

definition release_count :: "event \<Rightarrow> world \<Rightarrow> nat" where
  "release_count e w = count_list (trace w) e"



text \<open>The store before anything is allocated.\<close>

definition empty_world :: world where
  "empty_world =
     \<lparr>brk = 0, mutexes = Map.empty, spinlocks = Map.empty, shared_mutexes = Map.empty,
      trace = []\<rparr>"

text \<open>How often the destructor of a guard makes the release call \<open>e\<close>.\<close>

definition guard_releases :: "UnifiedLockGuard \<Rightarrow> event \<Rightarrow> nat" where
  "guard_releases g e = release_count e (UnifiedLockGuard_dtor g empty_world)"

text \<open>A container of each policy, built in the empty store, for concrete runs.\<close>

definition sample :: "LockPolicy \<Rightarrow> nat container_mixin \<times> world" where
  "sample P = container_mixin_ctor P [1, 2, 1] empty_world"

section \<open>The spin primitive\<close>

lemma SpinLock_lock_free:
  "\<not> flag s \<Longrightarrow> SpinLock_lock s = Some (s\<lparr>flag := True\<rparr>)"
  by (subst SpinLock_lock.simps) (simp add: test_and_set_def)

lemma SpinLock_lock_returns_only_if_free:
  assumes "SpinLock_lock s = Some s'"
  shows "\<not> flag s"
proof (rule SpinLock_lock.raw_induct [where P = "\<lambda>x y. \<not> flag x", OF _ assms])
  fix spin :: "SpinLock_obj \<Rightarrow> SpinLock_obj option" and x y
  assume IH: "\<And>x y. spin x = Some y \<Longrightarrow> \<not> flag x"
    and step: "(case test_and_set (flag x) of
        (old, new) \<Rightarrow>
          if old then spin (x\<lparr>flag := new\<rparr>)
          else Some (x\<lparr>flag := new\<rparr>)) = Some y"
  show "\<not> flag x"
  proof
    assume "flag x"
    with step have "spin (x\<lparr>flag := True\<rparr>) = Some y"
      by (simp add: test_and_set_def)
    from IH [OF this] show False by simp
  qed
qed

lemma SpinLock_lock_held: "flag s \<Longrightarrow> SpinLock_lock s = None"
  using SpinLock_lock_returns_only_if_free [of s] by (cases "SpinLock_lock s") auto

lemma SpinLock_lock_cases:
  "SpinLock_lock s = (if flag s then None else Some (s\<lparr>flag := True\<rparr>))"
  by (simp add: SpinLock_lock_free SpinLock_lock_held)

text \<open>
  Claim C6. \<^verbatim>\<open>SpinLock::try_lock()\<close> makes one attempt and has no loop: it is a total
  function that returns at once. It returns true exactly when the flag was free; the
  flag is then set, which is the state \<^verbatim>\<open>lock()\<close> reaches from a free flag. When it
  returns false the object is unchanged, whereas \<^verbatim>\<open>lock()\<close> would not return.
\<close>

theorem SpinLock_try_lock_single_attempt:
  "SpinLock_try_lock s = (\<not> flag s, s\<lparr>flag := True\<rparr>)
   \<and> (fst (SpinLock_try_lock s) \<longrightarrow> SpinLock_lock s = Some (snd (SpinLock_try_lock s)))
   \<and> (\<not> fst (SpinLock_try_lock s) \<longrightarrow>
        snd (SpinLock_try_lock s) = s \<and> SpinLock_lock s = None)"
  by (simp add: SpinLock_try_lock_def test_and_set_def SpinLock_lock_cases)

theorem SpinLock_try_lock_single_attempt_witness:
  "SpinLock_try_lock \<lparr>flag = False\<rparr> = (True, \<lparr>flag = True\<rparr>)
   \<and> SpinLock_lock \<lparr>flag = False\<rparr> = Some \<lparr>flag = True\<rparr>
   \<and> SpinLock_try_lock \<lparr>flag = True\<rparr> = (False, \<lparr>flag = True\<rparr>)
   \<and> SpinLock_lock \<lparr>flag = True\<rparr> = None"
  using SpinLock_try_lock_single_attempt [of "\<lparr>flag = False\<rparr>"]
    SpinLock_try_lock_single_attempt [of "\<lparr>flag = True\<rparr>"]
  by simp

section \<open>The lock holder\<close>

lemmas holder_defs = LockGuard_ctor_def make_mutex_def make_SpinLock_def make_shared_mutex_def

lemmas acquire_defs = acquire_write_lock_def acquire_read_lock_def returning_def lock_def
  write_lock_def read_lock_def unique_lock_rw_def container_mixin_ctor_def lock_ctor_def
  std_mutex_lock_def shared_mutex_lock_def shared_mutex_lock_shared_def spin_lock_at_def
  UnifiedLockGuard_of_mutex_def UnifiedLockGuard_of_spin_def UnifiedLockGuard_of_null_def
  UnifiedLockGuard_of_rw_def

lemmas release_defs = UnifiedLockGuard_dtor_def UnifiedLockGuard_dtor_body_def lock_dtor_def
  std_mutex_unlock_def shared_mutex_unlock_def shared_mutex_unlock_shared_def spin_unlock_at_def

lemmas move_defs = UnifiedLockGuard_move_def UnifiedLockGuard_assign_def move_payload_def
  lock_move_assign_def

lemma LockGuard_step_keeps_holder:
  "\<forall>c \<in> set cs. \<not> is_assign c \<Longrightarrow> fst (fold LockGuard_step cs (lg, w)) = lg"
proof (induction cs arbitrary: w)
  case Nil
  show ?case by simp
next
  case (Cons c cs)
  then have "\<not> is_assign c" and rest: "\<forall>c \<in> set cs. \<not> is_assign c"
    by simp_all
  then obtain w' where "LockGuard_step c (lg, w) = (lg, w')"
    by (cases c) simp_all
  with Cons.IH [OF rest] show ?case by simp
qed

text \<open>
  Claim C7, as amended. Constructing a \<^verbatim>\<open>LockGuard\<close> with policy \<open>p\<close> stores \<open>p\<close> and
  allocates the one primitive of that policy, free, at the next address: a mutex for
  \<open>Mutex\<close>, a \<^verbatim>\<open>SpinLock\<close> for \<open>SpinLock\<close>, a shared mutex for \<open>ReadWrite\<close>. The
  other two pointers stay null, and for \<open>LockFree\<close> all three do and the store is
  unchanged. After any sequence of calls of the holder's member functions the holder,
  and with it the stored policy, is what the constructor made. An assignment from
  another holder replaces the policy and the three pointers by the source's.
\<close>

theorem LockGuard_ctor_allocates_matching_primitive:
  "(case LockGuard_ctor p w of
      (lg, w') \<Rightarrow>
        policy lg = p
        \<and> h_mutex lg = (if p = Mutex then Some (brk w) else None)
        \<and> h_spinlock lg = (if p = SpinLock then Some (brk w) else None)
        \<and> h_shared_mutex lg = (if p = ReadWrite then Some (brk w) else None)
        \<and> mutexes w' = (if p = Mutex then (mutexes w)(brk w \<mapsto> False) else mutexes w)
        \<and> spinlocks w' =
            (if p = SpinLock then (spinlocks w)(brk w \<mapsto> \<lparr>flag = False\<rparr>) else spinlocks w)
        \<and> shared_mutexes w' =
            (if p = ReadWrite
             then (shared_mutexes w)(brk w \<mapsto> \<lparr>writer = False, readers = 0\<rparr>)
             else shared_mutexes w)
        \<and> trace w' = trace w
        \<and> (p = LockFree \<longrightarrow> w' = w)
        \<and> ((\<forall>c \<in> set cs. \<not> is_assign c) \<longrightarrow>
              fst (fold LockGuard_step cs (lg, w')) = lg
              \<and> policy (fst (fold LockGuard_step cs (lg, w'))) = p)
        \<and> fst (LockGuard_step (Op_assign src) (lg, w')) = src
        \<and> policy (fst (LockGuard_step (Op_assign src) (lg, w'))) = policy src)"
proof -
  obtain lg w' where built: "LockGuard_ctor p w = (lg, w')"
    by (cases "LockGuard_ctor p w") auto
  have alloc: "policy lg = p
        \<and> h_mutex lg = (if p = Mutex then Some (brk w) else None)
        \<and> h_spinlock lg = (if p = SpinLock then Some (brk w) else None)
        \<and> h_shared_mutex lg = (if p = ReadWrite then Some (brk w) else None)
        \<and> mutexes w' = (if p = Mutex then (mutexes w)(brk w \<mapsto> False) else mutexes w)
        \<and> spinlocks w' =
            (if p = SpinLock then (spinlocks w)(brk w \<mapsto> \<lparr>flag = False\<rparr>) else spinlocks w)
        \<and> shared_mutexes w' =
            (if p = ReadWrite
             then (shared_mutexes w)(brk w \<mapsto> \<lparr>writer = False, readers = 0\<rparr>)
             else shared_mutexes w)
        \<and> trace w' = trace w
        \<and> (p = LockFree \<longrightarrow> w' = w)"
    using built by (cases p) (auto simp: holder_defs policy_def)
  have life: "fst (fold LockGuard_step cs (lg, w')) = lg
              \<and> policy (fst (fold LockGuard_step cs (lg, w'))) = p"
    if "\<forall>c \<in> set cs. \<not> is_assign c"
    using LockGuard_step_keeps_holder [OF that] alloc by simp
  have assigned: "fst (LockGuard_step (Op_assign src) (lg, w')) = src"
    by (simp add: LockGuard_move_assign_def)
  from alloc life assigned show ?thesis
    unfolding built by simp
qed

theorem LockGuard_ctor_allocates_matching_primitive_witness:
  "(case LockGuard_ctor LockFree empty_world of
      (lg, w') \<Rightarrow>
        policy lg = LockFree \<and> h_mutex lg = None \<and> h_spinlock lg = None
        \<and> h_shared_mutex lg = None \<and> w' = empty_world)
   \<and> (case LockGuard_ctor SpinLock empty_world of
        (lg, w') \<Rightarrow>
          policy lg = SpinLock \<and> h_mutex lg = None \<and> h_spinlock lg = Some 0
          \<and> h_shared_mutex lg = None \<and> spinlocks w' 0 = Some \<lparr>flag = False\<rparr>
          \<and> mutexes w' = Map.empty \<and> shared_mutexes w' = Map.empty
          \<and> policy (fst (fold LockGuard_step [Op_write_lock, Op_read_lock, Op_policy]
                            (lg, w'))) = SpinLock
          \<and> policy (fst (LockGuard_step (Op_assign (fst (LockGuard_ctor Mutex w')))
                            (lg, w'))) = Mutex)"
  using
    LockGuard_ctor_allocates_matching_primitive [of LockFree empty_world "[]"
      "fst (LockGuard_ctor Mutex empty_world)"]
    LockGuard_ctor_allocates_matching_primitive [of SpinLock empty_world
      "[Op_write_lock, Op_read_lock, Op_policy]"
      "fst (LockGuard_ctor Mutex (snd (LockGuard_ctor SpinLock empty_world)))"]
  by (simp add: empty_world_def holder_defs policy_def)

text \<open>
  The claim as first stated, that the stored policy is the constructor's argument for
  the holder's whole life, fails: a holder built with \<open>Mutex\<close> and then assigned a holder
  built with \<open>SpinLock\<close> (\<^verbatim>\<open>LockGuard a(LockPolicy::Mutex); a = LockGuard(LockPolicy::SpinLock);\<close>)
  answers \<open>SpinLock\<close>.
\<close>

theorem LockGuard_policy_changed_by_assignment:
  "policy (fst (LockGuard_step
                  (Op_assign (fst (LockGuard_ctor SpinLock (snd (LockGuard_ctor Mutex empty_world)))))
                  (LockGuard_ctor Mutex empty_world)))
   \<noteq> Mutex"
  by (simp add: holder_defs policy_def LockGuard_move_assign_def empty_world_def)

text \<open>
  Claim C3. With any policy but \<open>ReadWrite\<close>, \<^verbatim>\<open>read_lock()\<close> and
  \<^verbatim>\<open>unique_lock_rw()\<close> throw \<^verbatim>\<open>std::logic_error\<close>, whatever the store holds, hence
  on every call. With \<open>ReadWrite\<close> neither ever throws: on the holder the constructor
  built, \<^verbatim>\<open>read_lock()\<close> returns a shared lock that owns the shared mutex unless a
  writer holds it, and \<^verbatim>\<open>unique_lock_rw()\<close> returns a writer lock unless somebody
  holds it; otherwise the call waits.
\<close>

theorem read_side_needs_ReadWrite:
  "(h_policy lg \<noteq> ReadWrite \<longrightarrow>
      read_lock lg w = Thrown (logic_error ''Cannot acquire read_lock on Mutex policy'')
      \<and> unique_lock_rw lg w =
          Thrown (logic_error ''Cannot acquire unique_lock_rw on Mutex policy''))
   \<and> (h_policy lg = ReadWrite \<longrightarrow>
        (\<forall>e. read_lock lg w \<noteq> Thrown e) \<and> (\<forall>e. unique_lock_rw lg w \<noteq> Thrown e))
   \<and> (lg = fst (LockGuard_ctor ReadWrite w0) \<and> shared_mutexes w (brk w0) = Some m \<longrightarrow>
        read_lock lg w =
          (if writer m then Blocked
           else Returned (\<lparr>pm = Some (brk w0), owns = True\<rparr>,
                  w\<lparr>shared_mutexes :=
                       (shared_mutexes w)(brk w0 \<mapsto> m\<lparr>readers := Suc (readers m)\<rparr>),
                    trace := trace w @ [Locked_shared (brk w0)]\<rparr>))
        \<and> unique_lock_rw lg w =
          (if writer m \<or> 0 < readers m then Blocked
           else Returned (\<lparr>pm = Some (brk w0), owns = True\<rparr>,
                  w\<lparr>shared_mutexes := (shared_mutexes w)(brk w0 \<mapsto> m\<lparr>writer := True\<rparr>),
                    trace := trace w @ [Locked_rw (brk w0)]\<rparr>)))"
  by (auto simp: read_lock_def unique_lock_rw_def holder_defs lock_ctor_def
      shared_mutex_lock_shared_def shared_mutex_lock_def split: option.splits)

theorem read_side_needs_ReadWrite_witness:
  "read_lock (fst (LockGuard_ctor Mutex empty_world)) (snd (LockGuard_ctor Mutex empty_world))
     = Thrown (logic_error ''Cannot acquire read_lock on Mutex policy'')
   \<and> unique_lock_rw (fst (LockGuard_ctor SpinLock empty_world))
        (snd (LockGuard_ctor SpinLock empty_world))
     = Thrown (logic_error ''Cannot acquire unique_lock_rw on Mutex policy'')
   \<and> (case read_lock (fst (LockGuard_ctor ReadWrite empty_world))
              (snd (LockGuard_ctor ReadWrite empty_world)) of
         Returned (l, w') \<Rightarrow>
           l = \<lparr>pm = Some 0, owns = True\<rparr> \<and> trace w' = [Locked_shared 0]
           \<and> shared_mutexes w' 0 = Some \<lparr>writer = False, readers = 1\<rparr>
       | _ \<Rightarrow> False)
   \<and> (case unique_lock_rw (fst (LockGuard_ctor ReadWrite empty_world))
              (snd (LockGuard_ctor ReadWrite empty_world)) of
         Returned (l, w') \<Rightarrow>
           l = \<lparr>pm = Some 0, owns = True\<rparr> \<and> trace w' = [Locked_rw 0]
           \<and> shared_mutexes w' 0 = Some \<lparr>writer = True, readers = 0\<rparr>
       | _ \<Rightarrow> False)"
  using
    read_side_needs_ReadWrite [of "fst (LockGuard_ctor Mutex empty_world)"
      "snd (LockGuard_ctor Mutex empty_world)"]
    read_side_needs_ReadWrite [of "fst (LockGuard_ctor SpinLock empty_world)"
      "snd (LockGuard_ctor SpinLock empty_world)"]
    read_side_needs_ReadWrite [of "fst (LockGuard_ctor ReadWrite empty_world)"
      "snd (LockGuard_ctor ReadWrite empty_world)" empty_world
      "\<lparr>writer = False, readers = 0\<rparr>"]
  by (simp add: holder_defs empty_world_def)

section \<open>Acquisition through the mixin\<close>

text \<open>
  Claim C10. A holder with policy \<open>ReadWrite\<close> answers \<^verbatim>\<open>write_lock()\<close> and
  \<^verbatim>\<open>lock()\<close> with \<^verbatim>\<open>std::logic_error\<close>, in every store. The mixin's
  \<^verbatim>\<open>acquire_write_lock()\<close> for \<open>ReadWrite\<close> is \<^verbatim>\<open>unique_lock_rw()\<close>, not
  \<^verbatim>\<open>write_lock()\<close>: it never throws on a \<open>ReadWrite\<close> holder.
\<close>

theorem write_lock_refuses_ReadWrite:
  "(h_policy lg = ReadWrite \<longrightarrow>
      write_lock lg w = Thrown (logic_error ''Cannot acquire write_lock on ReadWrite policy'')
      \<and> lock lg w = Thrown (logic_error ''Cannot acquire write_lock on ReadWrite policy''))
   \<and> acquire_write_lock ReadWrite c w = returning Unique_rw (unique_lock_rw (lock_guard c) w)
   \<and> (h_policy (lock_guard c) = ReadWrite \<longrightarrow>
        (\<forall>e. acquire_write_lock ReadWrite c w \<noteq> Thrown e))"
  by (auto simp: acquire_defs split: option.splits)

theorem write_lock_refuses_ReadWrite_witness:
  "write_lock (lock_guard (fst (sample ReadWrite))) (snd (sample ReadWrite))
     = Thrown (logic_error ''Cannot acquire write_lock on ReadWrite policy'')
   \<and> lock (lock_guard (fst (sample ReadWrite))) (snd (sample ReadWrite))
     = Thrown (logic_error ''Cannot acquire write_lock on ReadWrite policy'')
   \<and> (case acquire_write_lock ReadWrite (fst (sample ReadWrite)) (snd (sample ReadWrite)) of
         Returned (g, w') \<Rightarrow>
           g = Unique_rw \<lparr>pm = Some 0, owns = True\<rparr> \<and> trace w' = [Locked_rw 0]
       | _ \<Rightarrow> False)"
  using write_lock_refuses_ReadWrite [of "lock_guard (fst (sample ReadWrite))"
      "snd (sample ReadWrite)" "fst (sample ReadWrite)"]
  by (simp add: sample_def acquire_defs holder_defs empty_world_def)

text \<open>
  Claim C4. For \<open>Mutex\<close>, \<open>SpinLock\<close> and \<open>LockFree\<close>, \<^verbatim>\<open>acquire_read_lock()\<close> is
  the same call as \<^verbatim>\<open>acquire_write_lock()\<close>: same result, same guard, same store.
  For \<open>ReadWrite\<close> it is the holder's \<^verbatim>\<open>read_lock()\<close>, which on a shared mutex without
  a writer returns a shared lock and adds one reader.
\<close>

theorem acquire_read_lock_by_policy:
  "(P \<noteq> ReadWrite \<longrightarrow> acquire_read_lock P c w = acquire_write_lock P c w)
   \<and> acquire_read_lock ReadWrite c w = returning Shared_rw (read_lock (lock_guard c) w)
   \<and> (c = fst (container_mixin_ctor ReadWrite xs w0) \<and> shared_mutexes w (brk w0) = Some m
        \<and> \<not> writer m \<longrightarrow>
        acquire_read_lock ReadWrite c w =
          Returned (Shared_rw \<lparr>pm = Some (brk w0), owns = True\<rparr>,
            w\<lparr>shared_mutexes :=
                 (shared_mutexes w)(brk w0 \<mapsto> m\<lparr>readers := Suc (readers m)\<rparr>),
              trace := trace w @ [Locked_shared (brk w0)]\<rparr>))"
  by (cases P) (simp_all add: acquire_defs holder_defs)

theorem acquire_read_lock_by_policy_witness:
  "acquire_read_lock Mutex (fst (sample Mutex)) (snd (sample Mutex))
     = acquire_write_lock Mutex (fst (sample Mutex)) (snd (sample Mutex))
   \<and> acquire_read_lock SpinLock (fst (sample SpinLock)) (snd (sample SpinLock))
     = acquire_write_lock SpinLock (fst (sample SpinLock)) (snd (sample SpinLock))
   \<and> acquire_read_lock LockFree (fst (sample LockFree)) (snd (sample LockFree))
     = acquire_write_lock LockFree (fst (sample LockFree)) (snd (sample LockFree))
   \<and> (case acquire_read_lock ReadWrite (fst (sample ReadWrite)) (snd (sample ReadWrite)) of
         Returned (g, w') \<Rightarrow>
           g = Shared_rw \<lparr>pm = Some 0, owns = True\<rparr> \<and> trace w' = [Locked_shared 0]
           \<and> shared_mutexes w' 0 = Some \<lparr>writer = False, readers = 1\<rparr>
       | _ \<Rightarrow> False)"
  using
    acquire_read_lock_by_policy [of Mutex "fst (sample Mutex)" "snd (sample Mutex)"]
    acquire_read_lock_by_policy [of SpinLock "fst (sample SpinLock)" "snd (sample SpinLock)"]
    acquire_read_lock_by_policy [of LockFree "fst (sample LockFree)" "snd (sample LockFree)"]
    acquire_read_lock_by_policy [of ReadWrite "fst (sample ReadWrite)" "snd (sample ReadWrite)"
      "[1, 2, 1]" empty_world "\<lparr>writer = False, readers = 0\<rparr>"]
  by (simp add: sample_def acquire_defs holder_defs empty_world_def)

text \<open>
  Claim C1. \<^verbatim>\<open>acquire_write_lock()\<close> takes the branch of its policy. For \<open>Mutex\<close>,
  \<open>SpinLock\<close> and \<open>LockFree\<close> it is the holder's \<^verbatim>\<open>lock()\<close>, that is
  \<^verbatim>\<open>write_lock()\<close>; for \<open>ReadWrite\<close> it is \<^verbatim>\<open>unique_lock_rw()\<close>. On a container
  built with that policy and a free primitive the result is: a guard with tag 0 whose
  mutex lock owns the now held mutex; a guard with tag 1 on the spin primitive, whose flag
  is now set; a writer lock that owns the shared mutex; and, for \<open>LockFree\<close>, the empty
  guard with tag 3, with the store and its log untouched.
\<close>

theorem acquire_write_lock_by_policy:
  "acquire_write_lock Mutex c w = returning Unified (write_lock (lock_guard c) w)
   \<and> acquire_write_lock SpinLock c w = returning Unified (write_lock (lock_guard c) w)
   \<and> acquire_write_lock LockFree c w = returning Unified (write_lock (lock_guard c) w)
   \<and> acquire_write_lock ReadWrite c w = returning Unique_rw (unique_lock_rw (lock_guard c) w)
   \<and> (c = fst (container_mixin_ctor Mutex xs w0) \<and> mutexes w (brk w0) = Some False \<longrightarrow>
      acquire_write_lock Mutex c w =
        Returned (Unified \<lparr>spinlock = None, lock_type = 0,
                           mutex_lock = \<lparr>pm = Some (brk w0), owns = True\<rparr>,
                           rw_lock = no_lock\<rparr>,
          w\<lparr>mutexes := (mutexes w)(brk w0 \<mapsto> True),
            trace := trace w @ [Locked_mutex (brk w0)]\<rparr>))
   \<and> (c = fst (container_mixin_ctor SpinLock xs w0)
        \<and> spinlocks w (brk w0) = Some \<lparr>flag = False\<rparr> \<longrightarrow>
      acquire_write_lock SpinLock c w =
        Returned (Unified \<lparr>spinlock = Some (brk w0), lock_type = 1,
                           mutex_lock = no_lock, rw_lock = no_lock\<rparr>,
          w\<lparr>spinlocks := (spinlocks w)(brk w0 \<mapsto> \<lparr>flag = True\<rparr>),
            trace := trace w @ [Locked_spin (brk w0)]\<rparr>))
   \<and> (c = fst (container_mixin_ctor ReadWrite xs w0)
        \<and> shared_mutexes w (brk w0) = Some \<lparr>writer = False, readers = 0\<rparr> \<longrightarrow>
      acquire_write_lock ReadWrite c w =
        Returned (Unique_rw \<lparr>pm = Some (brk w0), owns = True\<rparr>,
          w\<lparr>shared_mutexes :=
               (shared_mutexes w)(brk w0 \<mapsto> \<lparr>writer = True, readers = 0\<rparr>),
            trace := trace w @ [Locked_rw (brk w0)]\<rparr>))
   \<and> (c = fst (container_mixin_ctor LockFree xs w0) \<longrightarrow>
      acquire_write_lock LockFree c w =
        Returned (Unified \<lparr>spinlock = None, lock_type = 3,
                           mutex_lock = no_lock, rw_lock = no_lock\<rparr>, w))"
  by (simp add: acquire_defs holder_defs SpinLock_lock_cases)

theorem acquire_write_lock_by_policy_witness:
  "(case acquire_write_lock Mutex (fst (sample Mutex)) (snd (sample Mutex)) of
      Returned (Unified g, w') \<Rightarrow>
        lock_type g = 0 \<and> mutex_lock g = \<lparr>pm = Some 0, owns = True\<rparr>
        \<and> mutexes w' 0 = Some True \<and> trace w' = [Locked_mutex 0]
    | _ \<Rightarrow> False)
   \<and> (case acquire_write_lock SpinLock (fst (sample SpinLock)) (snd (sample SpinLock)) of
        Returned (Unified g, w') \<Rightarrow>
          lock_type g = 1 \<and> UnifiedLockGuard.spinlock g = Some 0
          \<and> spinlocks w' 0 = Some \<lparr>flag = True\<rparr> \<and> trace w' = [Locked_spin 0]
      | _ \<Rightarrow> False)
   \<and> (case acquire_write_lock ReadWrite (fst (sample ReadWrite)) (snd (sample ReadWrite)) of
        Returned (Unique_rw l, w') \<Rightarrow>
          l = \<lparr>pm = Some 0, owns = True\<rparr>
          \<and> shared_mutexes w' 0 = Some \<lparr>writer = True, readers = 0\<rparr>
          \<and> trace w' = [Locked_rw 0]
      | _ \<Rightarrow> False)
   \<and> acquire_write_lock LockFree (fst (sample LockFree)) (snd (sample LockFree))
       = Returned (Unified UnifiedLockGuard_of_null, empty_world)"
  using
    acquire_write_lock_by_policy [of "fst (sample Mutex)" "snd (sample Mutex)"
      "[1, 2, 1]" empty_world]
    acquire_write_lock_by_policy [of "fst (sample SpinLock)" "snd (sample SpinLock)"
      "[1, 2, 1]" empty_world]
    acquire_write_lock_by_policy [of "fst (sample ReadWrite)" "snd (sample ReadWrite)"
      "[1, 2, 1]" empty_world]
    acquire_write_lock_by_policy [of "fst (sample LockFree)" "snd (sample LockFree)"
      "[1, 2, 1]" empty_world]
  by (simp add: sample_def acquire_defs holder_defs empty_world_def SpinLock_lock_cases)

section \<open>The unified guard\<close>

text \<open>
  The spin payload. The constructor from a \<^verbatim>\<open>SpinLock&\<close> calls \<^verbatim>\<open>lock()\<close> on it: on a
  free primitive it returns the guard with tag 1 and the primitive held, on a held one
  it does not return. The destructor calls \<^verbatim>\<open>unlock()\<close> on the primitive at \<open>a\<close> once
  when the tag is 1 and the pointer is \<open>a\<close>, and not at all otherwise; the primitive
  is then free. With a tag other than 1 the destructor's body does nothing, and the whole
  destructor does nothing when, besides, the two lock members own nothing.
\<close>

lemma spin_guard_locks_and_unlocks:
  "(spinlocks w a = Some s \<and> \<not> flag s \<longrightarrow>
      UnifiedLockGuard_of_spin a w =
        Returned (\<lparr>spinlock = Some a, lock_type = 1, mutex_lock = no_lock, rw_lock = no_lock\<rparr>,
          w\<lparr>spinlocks := (spinlocks w)(a \<mapsto> s\<lparr>flag := True\<rparr>),
            trace := trace w @ [Locked_spin a]\<rparr>))
   \<and> (spinlocks w a = Some s \<and> flag s \<longrightarrow> UnifiedLockGuard_of_spin a w = Blocked)
   \<and> release_count (Unlocked_spin a) (UnifiedLockGuard_dtor g w) =
        release_count (Unlocked_spin a) w
        + (if lock_type g = 1 \<and> spinlock g = Some a then 1 else 0)
   \<and> (lock_type g = 1 \<and> spinlock g = Some a \<longrightarrow>
        spinlocks (UnifiedLockGuard_dtor g w) a = map_option SpinLock_unlock (spinlocks w a))
   \<and> (lock_type g \<noteq> 1 \<longrightarrow> UnifiedLockGuard_dtor_body g w = w)
   \<and> (lock_type g \<noteq> 1 \<and> \<not> owns (mutex_lock g) \<and> \<not> owns (rw_lock g) \<longrightarrow>
        UnifiedLockGuard_dtor g w = w)"
  by (auto simp: acquire_defs release_defs release_count_def SpinLock_lock_cases
      split: option.splits)

lemma spin_guard_locks_and_unlocks_example:
  "(case UnifiedLockGuard_of_spin 0 (snd (sample SpinLock)) of
      Returned (g, w') \<Rightarrow>
        lock_type g = 1 \<and> spinlock g = Some 0 \<and> spinlocks w' 0 = Some \<lparr>flag = True\<rparr>
        \<and> UnifiedLockGuard_of_spin 0 w' = Blocked
        \<and> release_count (Unlocked_spin 0) (UnifiedLockGuard_dtor g w') = 1
        \<and> spinlocks (UnifiedLockGuard_dtor g w') 0 = Some \<lparr>flag = False\<rparr>
        \<and> (case UnifiedLockGuard_move g w' of
              (g', src, w'') \<Rightarrow>
                lock_type src = - 1 \<and> UnifiedLockGuard_dtor_body src w'' = w''
                \<and> UnifiedLockGuard_dtor src w'' = w'')
    | _ \<Rightarrow> False)"
  using
    spin_guard_locks_and_unlocks [of "snd (sample SpinLock)" 0 "\<lparr>flag = False\<rparr>"
      "\<lparr>spinlock = Some 0, lock_type = 1, mutex_lock = no_lock, rw_lock = no_lock\<rparr>"]
    spin_guard_locks_and_unlocks [of
      "(snd (sample SpinLock))\<lparr>spinlocks := [0 \<mapsto> \<lparr>flag = True\<rparr>],
          trace := [Locked_spin 0]\<rparr>" 0 "\<lparr>flag = True\<rparr>"
      "\<lparr>spinlock = None, lock_type = - 1, mutex_lock = no_lock, rw_lock = no_lock\<rparr>"]
  by (simp add: sample_def acquire_defs holder_defs empty_world_def SpinLock_lock_cases
      release_defs release_count_def move_defs no_lock_def SpinLock_unlock_def clear_def)

section \<open>The helpers of the mixin\<close>







text \<open>
  Claim C9. \<^verbatim>\<open>unsafe_size()\<close> and \<^verbatim>\<open>unsafe_empty()\<close> return the length and the
  emptiness of \<^verbatim>\<open>data_\<close>; \<^verbatim>\<open>unsafe_ref()\<close> returns \<^verbatim>\<open>data_\<close> itself: reading through
  the reference gives the sequence, writing through it replaces the sequence and leaves
  the holder alone. None of the three makes a call on a primitive: the store, with the
  state of every lock and the log, is returned as it was, and none can wait or throw.
\<close>

theorem unsafe_helpers_take_no_lock:
  "unsafe_size c w = Returned (length (data c), w)
   \<and> unsafe_empty c w = Returned (data c = [], w)
   \<and> (case unsafe_ref c w of
         Returned ((xs, put), w') \<Rightarrow>
           xs = data c \<and> w' = w
           \<and> (\<forall>ys. data (put ys) = ys \<and> lock_guard (put ys) = lock_guard c)
       | _ \<Rightarrow> False)"
  by (simp add: unsafe_size_def unsafe_empty_def unsafe_ref_def)

section \<open>Moving the unified guard\<close>

text \<open>The release calls of a destructor, counted member by member.\<close>

lemma mutex_lock_dtor_count:
  "release_count e (lock_dtor std_mutex_unlock l w) =
     release_count e w
     + (if owns l \<and> pm l \<noteq> None \<and> e = Unlocked_mutex (the (pm l)) then 1 else 0)"
  by (cases "pm l") (simp_all add: lock_dtor_def std_mutex_unlock_def release_count_def)

lemma rw_lock_dtor_count:
  "release_count e (lock_dtor shared_mutex_unlock l w) =
     release_count e w
     + (if owns l \<and> pm l \<noteq> None \<and> e = Unlocked_rw (the (pm l)) then 1 else 0)"
  by (cases "pm l") (simp_all add: lock_dtor_def shared_mutex_unlock_def release_count_def)

lemma dtor_body_count:
  "release_count e (UnifiedLockGuard_dtor_body g w) =
     release_count e w
     + (if lock_type g = 1 \<and> spinlock g \<noteq> None \<and> e = Unlocked_spin (the (spinlock g))
        then 1 else 0)"
  by (cases "spinlock g")
    (simp_all add: UnifiedLockGuard_dtor_body_def spin_unlock_at_def release_count_def)

lemma dtor_release_count_explicit:
  "release_count e (UnifiedLockGuard_dtor g w) =
     release_count e w
     + (if lock_type g = 1 \<and> spinlock g \<noteq> None \<and> e = Unlocked_spin (the (spinlock g))
        then 1 else 0)
     + (if owns (rw_lock g) \<and> pm (rw_lock g) \<noteq> None \<and> e = Unlocked_rw (the (pm (rw_lock g)))
        then 1 else 0)
     + (if owns (mutex_lock g) \<and> pm (mutex_lock g) \<noteq> None
           \<and> e = Unlocked_mutex (the (pm (mutex_lock g)))
        then 1 else 0)"
  unfolding UnifiedLockGuard_dtor_def
  by (simp only: mutex_lock_dtor_count rw_lock_dtor_count dtor_body_count)

lemma guard_releases_explicit:
  "guard_releases g e =
     (if lock_type g = 1 \<and> spinlock g \<noteq> None \<and> e = Unlocked_spin (the (spinlock g))
        then 1 else 0)
     + (if owns (rw_lock g) \<and> pm (rw_lock g) \<noteq> None \<and> e = Unlocked_rw (the (pm (rw_lock g)))
        then 1 else 0)
     + (if owns (mutex_lock g) \<and> pm (mutex_lock g) \<noteq> None
           \<and> e = Unlocked_mutex (the (pm (mutex_lock g)))
        then 1 else 0)"
proof -
  have "release_count e empty_world = 0"
    by (simp add: release_count_def empty_world_def)
  then show ?thesis
    unfolding guard_releases_def by (simp only: dtor_release_count_explicit add_0)
qed

lemma dtor_release_count:
  "release_count e (UnifiedLockGuard_dtor g w) = release_count e w + guard_releases g e"
  by (simp only: dtor_release_count_explicit guard_releases_explicit add.assoc)

lemma destroy_all_release_count:
  "release_count e (destroy_all gs w) =
     release_count e w + sum_list (map (\<lambda>g. guard_releases g e) gs)"
  by (induction gs arbitrary: w) (simp_all add: dtor_release_count)

text \<open>The move constructor, case by case. It makes no call on a primitive.\<close>

lemma move_result:
  "UnifiedLockGuard_move g w =
     (if lock_type g = 0
      then (\<lparr>spinlock = spinlock g, lock_type = 0, mutex_lock = mutex_lock g, rw_lock = no_lock\<rparr>,
            g\<lparr>mutex_lock := no_lock, spinlock := None, lock_type := - 1\<rparr>, w)
      else if lock_type g = 2
      then (\<lparr>spinlock = spinlock g, lock_type = 2, mutex_lock = no_lock, rw_lock = rw_lock g\<rparr>,
            g\<lparr>rw_lock := no_lock, spinlock := None, lock_type := - 1\<rparr>, w)
      else (\<lparr>spinlock = spinlock g, lock_type = lock_type g, mutex_lock = no_lock,
             rw_lock = no_lock\<rparr>,
            g\<lparr>spinlock := None, lock_type := - 1\<rparr>, w))"
  by (simp add: move_defs lock_dtor_def no_lock_def)

lemma move_keeps_releases:
  assumes "UnifiedLockGuard_move g w = (g', src, w')"
  shows "w' = w \<and> guard_releases g' e + guard_releases src e = guard_releases g e"
proof -
  consider "lock_type g = 0" | "lock_type g = 2" | "lock_type g \<noteq> 0" "lock_type g \<noteq> 2"
    by blast
  then show ?thesis
  proof cases
    case 1
    with assms have
      "g' = \<lparr>spinlock = spinlock g, lock_type = 0, mutex_lock = mutex_lock g, rw_lock = no_lock\<rparr>"
      "src = g\<lparr>mutex_lock := no_lock, spinlock := None, lock_type := - 1\<rparr>" "w' = w"
      by (simp_all add: move_result)
    with 1 show ?thesis
      by (simp add: guard_releases_explicit no_lock_def)
  next
    case 2
    with assms have
      "g' = \<lparr>spinlock = spinlock g, lock_type = 2, mutex_lock = no_lock, rw_lock = rw_lock g\<rparr>"
      "src = g\<lparr>rw_lock := no_lock, spinlock := None, lock_type := - 1\<rparr>" "w' = w"
      by (simp_all add: move_result)
    with 2 show ?thesis
      by (simp add: guard_releases_explicit no_lock_def)
  next
    case 3
    with assms have
      "g' = \<lparr>spinlock = spinlock g, lock_type = lock_type g, mutex_lock = no_lock,
             rw_lock = no_lock\<rparr>"
      "src = g\<lparr>spinlock := None, lock_type := - 1\<rparr>" "w' = w"
      by (simp_all add: move_result)
    then show ?thesis
      by (simp add: guard_releases_explicit no_lock_def)
  qed
qed

lemma move_chain_keeps_releases:
  "move_chain n g w = (h, srcs, w') \<Longrightarrow>
     w' = w \<and> guard_releases h e + sum_list (map (\<lambda>s. guard_releases s e) srcs)
              = guard_releases g e"
proof (induction n arbitrary: g w h srcs w')
  case 0
  then show ?case by simp
next
  case (Suc n)
  obtain g1 src w1 where m: "UnifiedLockGuard_move g w = (g1, src, w1)"
    by (cases "UnifiedLockGuard_move g w") auto
  obtain h2 srcs2 w2 where c: "move_chain n g1 w1 = (h2, srcs2, w2)"
    by (cases "move_chain n g1 w1") auto
  from Suc.prems m c have eqs: "h = h2" "srcs = src # srcs2" "w' = w2"
    by simp_all
  from move_keeps_releases [OF m, of e] Suc.IH [OF c] eqs
  show ?case by simp
qed

text \<open>
  Move construction alone keeps the promise: after any number of move constructions,
  destroying the last holder and then the moved-from objects makes each release call as
  often as destroying the first guard would have, and a guard fresh from a constructor
  releases what it holds once.
\<close>

lemma move_construction_releases_as_original:
  assumes "move_chain n g w = (h, srcs, w')"
  shows "release_count e (destroy_all (h # rev srcs) w') = release_count e w + guard_releases g e"
proof -
  from move_chain_keeps_releases [OF assms, of e]
  have "w' = w"
    and "guard_releases h e + sum_list (map (\<lambda>s. guard_releases s e) srcs) = guard_releases g e"
    by simp_all
  then show ?thesis
    by (simp add: destroy_all_release_count rev_map [symmetric] sum_list_rev del: destroy_all.simps)
qed

lemma constructed_guard_releases_once:
  "guard_releases (UnifiedLockGuard_of_mutex \<lparr>pm = Some a, owns = True\<rparr>) (Unlocked_mutex a) = 1"
  "guard_releases (UnifiedLockGuard_of_rw \<lparr>pm = Some a, owns = True\<rparr>) (Unlocked_rw a) = 1"
  "guard_releases \<lparr>spinlock = Some a, lock_type = 1, mutex_lock = no_lock, rw_lock = no_lock\<rparr>
     (Unlocked_spin a) = 1"
  "guard_releases UnifiedLockGuard_of_null e = 0"
  by (simp_all add: guard_releases_explicit UnifiedLockGuard_of_mutex_def
      UnifiedLockGuard_of_rw_def UnifiedLockGuard_of_null_def no_lock_def)

text \<open>
  So does move assignment into a target whose lock members own nothing (an empty guard,
  a spin guard, a moved-from guard): the target's payload is released by the explicit
  destructor call, the source's payload by the final destruction, each as often as its
  own destructor would have.
\<close>

lemma assign_result:
  assumes "this \<noteq> other" and "\<not> owns (mutex_lock (gs this))" and "\<not> owns (rw_lock (gs this))"
  shows "UnifiedLockGuard_assign this other gs w =
     (if lock_type (gs other) = 0
      then (gs(this := (gs this)\<lparr>spinlock := spinlock (gs other), lock_type := 0,
                                  mutex_lock := mutex_lock (gs other)\<rparr>,
               other := (gs other)\<lparr>mutex_lock := no_lock, spinlock := None, lock_type := - 1\<rparr>),
            UnifiedLockGuard_dtor (gs this) w)
      else if lock_type (gs other) = 2
      then (gs(this := (gs this)\<lparr>spinlock := spinlock (gs other), lock_type := 2,
                                  rw_lock := rw_lock (gs other)\<rparr>,
               other := (gs other)\<lparr>rw_lock := no_lock, spinlock := None, lock_type := - 1\<rparr>),
            UnifiedLockGuard_dtor (gs this) w)
      else (gs(this := (gs this)\<lparr>spinlock := spinlock (gs other),
                                  lock_type := lock_type (gs other)\<rparr>,
               other := (gs other)\<lparr>spinlock := None, lock_type := - 1\<rparr>),
            UnifiedLockGuard_dtor (gs this) w))"
  using assms by (simp add: move_defs lock_dtor_def)

lemma assign_into_idle_members_keeps_releases:
  assumes "this \<noteq> other" and "\<not> owns (mutex_lock (gs this))" and "\<not> owns (rw_lock (gs this))"
    and "UnifiedLockGuard_assign this other gs w = (gs', w')"
  shows "release_count e (UnifiedLockGuard_dtor (gs' this) (UnifiedLockGuard_dtor (gs' other) w'))
         = release_count e w + guard_releases (gs this) e + guard_releases (gs other) e"
proof -
  note r = assign_result [of this other gs w, OF assms(1-3)]
  consider "lock_type (gs other) = 0" | "lock_type (gs other) = 2"
    | "lock_type (gs other) \<noteq> 0" "lock_type (gs other) \<noteq> 2"
    by blast
  then show ?thesis
  proof cases
    case 1
    with assms(4) r have
      "gs' this = (gs this)\<lparr>spinlock := spinlock (gs other), lock_type := 0,
                                  mutex_lock := mutex_lock (gs other)\<rparr>"
      "gs' other = (gs other)\<lparr>mutex_lock := no_lock, spinlock := None, lock_type := - 1\<rparr>"
      "w' = UnifiedLockGuard_dtor (gs this) w"
      using assms(1) by auto
    with 1 assms(2,3) show ?thesis
      by (simp add: dtor_release_count) (simp add: guard_releases_explicit no_lock_def)
  next
    case 2
    with assms(4) r have
      "gs' this = (gs this)\<lparr>spinlock := spinlock (gs other), lock_type := 2,
                                  rw_lock := rw_lock (gs other)\<rparr>"
      "gs' other = (gs other)\<lparr>rw_lock := no_lock, spinlock := None, lock_type := - 1\<rparr>"
      "w' = UnifiedLockGuard_dtor (gs this) w"
      using assms(1) by auto
    with 2 assms(2,3) show ?thesis
      by (simp add: dtor_release_count) (simp add: guard_releases_explicit no_lock_def)
  next
    case 3
    with assms(4) r have
      "gs' this = (gs this)\<lparr>spinlock := spinlock (gs other),
                                  lock_type := lock_type (gs other)\<rparr>"
      "gs' other = (gs other)\<lparr>spinlock := None, lock_type := - 1\<rparr>"
      "w' = UnifiedLockGuard_dtor (gs this) w"
      using assms(1) by auto
    with 3 assms(2,3) show ?thesis
      by (simp add: dtor_release_count) (simp add: guard_releases_explicit no_lock_def)
  qed
qed

text \<open>
  Claim C2: a guard releases its resource exactly once, however it is moved, by
  construction or by assignment. Move assignment into a target whose \<^verbatim>\<open>mutex_lock_\<close>
  owns a mutex breaks this. \<^verbatim>\<open>operator=\<close> starts with \<^verbatim>\<open>this->~UnifiedLockGuard()\<close>,
  which destroys the target's lock members and so unlocks the mutex the target holds,
  yet leaves \<^verbatim>\<open>mutex_lock_\<close> owning it; the member is then assigned to, or destroyed
  again when the target goes out of scope, and unlocks the same mutex a second time.
  Here two holders with policy \<open>Mutex\<close> are built, a guard \<open>g\<close> is taken from the first
  (\<^verbatim>\<open>UnifiedLockGuard g = a.write_lock();\<close>) and the guard of the second is assigned to
  it (\<^verbatim>\<open>g = b.write_lock();\<close>); the temporary and then \<open>g\<close> are destroyed. The log
  shows the first mutex unlocked twice.
\<close>

theorem UnifiedLockGuard_assign_releases_twice:
  "(case LockGuard_ctor Mutex empty_world of
      (a, w1) \<Rightarrow>
        (case LockGuard_ctor Mutex w1 of
           (b, w2) \<Rightarrow>
             then_do (write_lock a w2) (\<lambda>(g, w3).
             then_do (write_lock b w3) (\<lambda>(tmp, w4).
               (case UnifiedLockGuard_assign 100 101
                       ((\<lambda>_. UnifiedLockGuard_of_null)(100 := g, 101 := tmp)) w4 of
                  (gs, w5) \<Rightarrow>
                    Returned (trace (UnifiedLockGuard_dtor (gs 100)
                                       (UnifiedLockGuard_dtor (gs 101) w5))))))))
   = Returned [Locked_mutex 0, Locked_mutex 1, Unlocked_mutex 0, Unlocked_mutex 0,
               Unlocked_mutex 1]"
  by (simp add: holder_defs acquire_defs release_defs move_defs empty_world_def no_lock_def)

text \<open>
  Claim C5: the constructor from the spin primitive locks it, the destructor unlocks it
  exactly when the spin tag is active, and with the empty tag the destructor releases
  nothing. The last part fails, by the defect of \<^verbatim>\<open>operator=\<close> shown for claim C2. A
  guard \<open>g\<close> taken from a \<open>Mutex\<close> holder is assigned the empty guard of a \<open>LockFree\<close>
  holder (\<^verbatim>\<open>UnifiedLockGuard g = a.write_lock(); g = b.write_lock();\<close>). The explicit
  destructor call has unlocked the mutex, \<open>g\<close> now carries the empty tag 3, and its
  \<^verbatim>\<open>mutex_lock_\<close> still owns the mutex: when \<open>g\<close> is destroyed, the log gains a second
  unlock of it. The result lists the tag of \<open>g\<close>, the log before its destruction and
  the log after.
\<close>

theorem empty_tag_destructor_releases_mutex:
  "(case LockGuard_ctor Mutex empty_world of
      (a, w1) \<Rightarrow>
        (case LockGuard_ctor LockFree w1 of
           (b, w2) \<Rightarrow>
             then_do (write_lock a w2) (\<lambda>(g, w3).
             then_do (write_lock b w3) (\<lambda>(tmp, w4).
               (case UnifiedLockGuard_assign 100 101
                       ((\<lambda>_. UnifiedLockGuard_of_null)(100 := g, 101 := tmp)) w4 of
                  (gs, w5) \<Rightarrow>
                    Returned (lock_type (gs 100),
                              trace (UnifiedLockGuard_dtor (gs 101) w5),
                              trace (UnifiedLockGuard_dtor (gs 100)
                                       (UnifiedLockGuard_dtor (gs 101) w5))))))))
   = Returned (3, [Locked_mutex 0, Unlocked_mutex 0],
               [Locked_mutex 0, Unlocked_mutex 0, Unlocked_mutex 0])"
  by (simp add: holder_defs acquire_defs release_defs move_defs empty_world_def no_lock_def)

end
